theory Spec2Isabelle
  imports Main "HOL-Library.Char_ord" "HOL-Library.List_Lexorder" "HOL-Library.Multiset"
begin

section \<open>The dataset\<close>

text \<open>
  The dashboard reads one Parquet table through DuckDB. A row carries the columns the
  queries of \<^verbatim>\<open>dash_public.py\<close> mention. Every column of a Parquet file is nullable,
  so a cell is an \<open>option\<close>: \<open>None\<close> is SQL \<open>NULL\<close>. Text columns are compared and
  sorted bytewise, which is the order of \<open>string\<close> given by \<open>Char_ord\<close> and
  \<open>List_Lexorder\<close>.
\<close>

record row =
  hh_id :: "int option"
  state :: "string option"
  district :: "string option"
  date_year :: "int option"
  date_month :: "int option"
  caste :: "string option"
  caste_category :: "string option"

text \<open>
  \<open>con.execute(...).fetchdf()\<close> either raises (the file cannot be fetched or read, a
  column is missing) or evaluates the query over the table. The only thing the Python
  does with the exception is to catch it, so one error value stands for all of them.
\<close>

datatype error = DataUnavailable

datatype source = Unreachable | Table "row list"

fun read_parquet :: "source \<Rightarrow> error + row list" where
  "read_parquet Unreachable = Inl DataUnavailable"
| "read_parquet (Table tbl) = Inr tbl"

text \<open>
  What SQL leaves to the engine is an input of the model. \<open>ORDER BY\<close> over a column
  with \<open>NULL\<close>s puts them first or last by a setting of the engine. Both
  \<open>ROW_NUMBER() OVER (ORDER BY count DESC)\<close> and the final
  \<open>ORDER BY "Households Count" DESC\<close> order by the count alone: the order among groups
  of equal count is the engine's choice, made once for the window and once for the result.
  Each choice is given as a key on the groups, by which equal counts are ordered.
\<close>

type_synonym group = "string option \<times> string option"

record engine =
  nulls_first :: bool
  window_ties :: "group \<Rightarrow> nat"
  result_ties :: "group \<Rightarrow> nat"
  mode_ties :: "string option \<Rightarrow> nat"


text \<open>\<open>ORDER BY count DESC\<close> with the engine's order \<open>ties\<close> among equal counts.\<close>

definition order_by_count_desc :: "('a \<Rightarrow> nat) \<Rightarrow> ('a \<Rightarrow> nat) \<Rightarrow> 'a list \<Rightarrow> 'a list" where
  "order_by_count_desc ties cnt xs = sort_key (\<lambda>x. - int (cnt x)) (sort_key ties xs)"

section \<open>Metadata for the dropdowns\<close>





section \<open>Districts of a state\<close>


section \<open>The ranked distribution\<close>

text \<open>
  The \<open>WHERE\<close> clause is a list of equalities joined by \<open>AND\<close>. Each clause compares a
  column with a literal written into the query text; the model takes the literal as the
  value it denotes (the texts have no quote character in them).
\<close>

datatype clause = StateEq string | YearEq int | MonthEq int | DistrictEq string

fun holds :: "clause \<Rightarrow> row \<Rightarrow> bool" where
  "holds (StateEq s) r = (state r = Some s)"
| "holds (YearEq y) r = (date_year r = Some y)"
| "holds (MonthEq m) r = (date_month r = Some m)"
| "holds (DistrictEq d) r = (district r = Some d)"

text \<open>
  \<open>where_clauses\<close> as the function builds it: the state always, year and month unless
  the whole panel is viewed, the district when the argument is a non-empty text other
  than \<open>'Entire State'\<close> (Python's \<open>if district and district != 'Entire State'\<close>).
\<close>

definition where_clauses :: "string \<Rightarrow> int \<Rightarrow> int \<Rightarrow> bool \<Rightarrow> string \<Rightarrow> clause list" where
  "where_clauses st year month view_entire_panel_flag dist =
     [StateEq st]
     @ (if \<not> view_entire_panel_flag then [YearEq year, MonthEq month] else [])
     @ (if dist \<noteq> [] \<and> dist \<noteq> ''Entire State'' then [DistrictEq dist] else [])"

definition where_str :: "clause list \<Rightarrow> row \<Rightarrow> bool" where
  "where_str cs r = list_all (\<lambda>c. holds c r) cs"

text \<open>
  \<open>count_hh_id_clause\<close>: \<open>COUNT(DISTINCT hh_id)\<close> for the whole panel, \<open>COUNT(hh_id)\<close>
  otherwise. Both aggregates skip \<open>NULL\<close>.
\<close>

datatype count_clause = COUNT_DISTINCT_hh_id | COUNT_hh_id

definition count_hh_id_clause :: "bool \<Rightarrow> count_clause" where
  "count_hh_id_clause view_entire_panel_flag =
     (if view_entire_panel_flag then COUNT_DISTINCT_hh_id else COUNT_hh_id)"

fun aggregate :: "count_clause \<Rightarrow> row list \<Rightarrow> nat" where
  "aggregate COUNT_hh_id rs = length [r \<leftarrow> rs. hh_id r \<noteq> None]"
| "aggregate COUNT_DISTINCT_hh_id rs = length (remdups (List.map_filter hh_id rs))"

text \<open>
  A row of the result frame. The percentage is
  \<open>ROUND(CAST(count AS DOUBLE) * 100.0 / SUM(count) OVER (), 2)\<close>, a computation in
  binary floating point: it enters the model as a function \<open>pct\<close> of the count and of
  the window sum, whose values are of a type \<open>'p\<close> left open.
\<close>

record 'p ranked =
  Caste :: "string option"
  Caste_Category :: "string option"
  Households_Count :: nat
  Percentage :: 'p
  Rank :: nat

definition group_of :: "row \<Rightarrow> group" where
  "group_of r = (caste r, caste_category r)"

definition ranked_group :: "'p ranked \<Rightarrow> group" where
  "ranked_group x = (Caste x, Caste_Category x)"

text \<open>
  The query, in the order SQL evaluates it: \<open>WHERE\<close>, \<open>GROUP BY caste, caste_category\<close>,
  the aggregate of each group, the window functions over the grouped rows (the sum of the
  counts, and \<open>ROW_NUMBER\<close> in the window ordered by count descending), and at last
  \<open>ORDER BY "Households Count" DESC\<close> on the selected rows.
\<close>

definition group_by :: "row list \<Rightarrow> group list" where
  "group_by rs = remdups (map group_of rs)"

definition count_in_group :: "count_clause \<Rightarrow> row list \<Rightarrow> group \<Rightarrow> nat" where
  "count_in_group cc rs g = aggregate cc [r \<leftarrow> rs. group_of r = g]"

definition select_ranked :: "(nat \<Rightarrow> nat \<Rightarrow> 'p) \<Rightarrow> engine \<Rightarrow> count_clause \<Rightarrow> row list \<Rightarrow> 'p ranked list" where
  "select_ranked pct eng cc rs =
     (let groups = group_by rs;
          cnt = count_in_group cc rs;
          sum_count_over = sum_list (map cnt groups);
          window = order_by_count_desc (window_ties eng) cnt groups
      in map (\<lambda>(i, g). \<lparr> Caste = fst g, Caste_Category = snd g,
                            Households_Count = cnt g,
                            Percentage = pct (cnt g) sum_count_over,
                            Rank = Suc i \<rparr>) (enumerate 0 window))"

definition query :: "(nat \<Rightarrow> nat \<Rightarrow> 'p) \<Rightarrow> engine \<Rightarrow> count_clause \<Rightarrow> clause list \<Rightarrow> row list \<Rightarrow> 'p ranked list" where
  "query pct eng cc wh tbl =
     order_by_count_desc (\<lambda>x. result_ties eng (ranked_group x)) Households_Count
       (select_ranked pct eng cc (filter (where_str wh) tbl))"

text \<open>
  \<open>get_caste_distribution_duckdb_optimized\<close> returns the frame and the total, and shows
  a message through \<open>st.error\<close> when the query raised; the messages shown are the second
  component.
\<close>

definition get_caste_distribution_duckdb_optimized ::
  "(nat \<Rightarrow> nat \<Rightarrow> 'p) \<Rightarrow> engine \<Rightarrow> source \<Rightarrow> string \<Rightarrow> int \<Rightarrow> int \<Rightarrow> bool \<Rightarrow> string
     \<Rightarrow> ('p ranked list \<times> nat) \<times> error list" where
  "get_caste_distribution_duckdb_optimized pct eng path st year month view_entire_panel_flag dist =
     (case read_parquet path of
        Inl e \<Rightarrow> (([], 0), [e])
      | Inr tbl \<Rightarrow>
          (let result_df = query pct eng (count_hh_id_clause view_entire_panel_flag)
                             (where_clauses st year month view_entire_panel_flag dist) tbl;
               total_households_in_state =
                 (if result_df \<noteq> [] then sum_list (map Households_Count result_df) else 0)
           in ((result_df, total_households_in_state), [])))"

section \<open>Concrete tables\<close>

text \<open>
  Small tables, on which the functions are run. \<open>household\<close> is a row with no \<open>NULL\<close>
  in it. \<open>first_come\<close> is an engine that keeps groups of equal count in the order in which
  it met them. \<open>operands\<close> stands in for the floating-point percentage: it keeps the count
  and the window sum the percentage is computed from.
\<close>

definition household :: "int \<Rightarrow> string \<Rightarrow> string \<Rightarrow> int \<Rightarrow> int \<Rightarrow> string \<Rightarrow> string \<Rightarrow> row" where
  "household h s d y m c k =
     \<lparr> hh_id = Some h, state = Some s, district = Some d, date_year = Some y,
       date_month = Some m, caste = Some c, caste_category = Some k \<rparr>"

definition first_come :: engine where
  "first_come = \<lparr> nulls_first = False, window_ties = (\<lambda>g. 0), result_ties = (\<lambda>g. 0),
                  mode_ties = (\<lambda>s. 0) \<rparr>"

definition operands :: "nat \<Rightarrow> nat \<Rightarrow> nat \<times> nat" where
  "operands c s = (c, s)"

definition three_households :: "row list" where
  "three_households =
     [household 1 ''A'' ''X'' 2020 1 ''C1'' ''K1'',
      household 2 ''A'' ''X'' 2020 1 ''C1'' ''K1'',
      household 3 ''A'' ''X'' 2020 1 ''C2'' ''K2'']"

definition two_periods :: "row list" where
  "two_periods = three_households @ [household 1 ''A'' ''X'' 2021 1 ''C1'' ''K1'']"


text \<open>Rows whose household identifier is \<open>NULL\<close>.\<close>

definition unidentified :: "row list" where
  "unidentified =
     [household 1 ''A'' ''X'' 2020 1 ''C1'' ''K1'',
      (household 2 ''A'' ''X'' 2020 1 ''C1'' ''K1'') \<lparr> hh_id := None \<rparr>,
      (household 3 ''A'' ''X'' 2020 1 ''C2'' ''K2'') \<lparr> hh_id := None \<rparr>]"




section \<open>The filter in the words of the specification\<close>


section \<open>Facts about the query\<close>



lemma mset_order_by_count_desc: "mset (order_by_count_desc t c xs) = mset xs"
  by (simp add: order_by_count_desc_def)

lemma set_order_by_count_desc: "set (order_by_count_desc t c xs) = set xs"
  by (simp add: order_by_count_desc_def)

lemma length_order_by_count_desc: "length (order_by_count_desc t c xs) = length xs"
  by (simp add: order_by_count_desc_def)

lemma distinct_order_by_count_desc: "distinct (order_by_count_desc t c xs) = distinct xs"
  by (simp add: order_by_count_desc_def)



lemma length_select_ranked: "length (select_ranked pct eng cc rs) = length (group_by rs)"
  by (simp add: select_ranked_def Let_def length_order_by_count_desc)

lemma map_fn_enumerate:
  "map (\<lambda>(i, g). F i g) (enumerate 0 w) = map (\<lambda>i. F i (w ! i)) [0..<length w]"
  by (rule nth_equalityI) (simp_all add: nth_enumerate_eq)

lemma select_ranked_nth:
  assumes "i < length (group_by rs)"
  shows "select_ranked pct eng cc rs ! i =
         (let g = order_by_count_desc (window_ties eng) (count_in_group cc rs) (group_by rs) ! i in
          \<lparr> Caste = fst g, Caste_Category = snd g, Households_Count = count_in_group cc rs g,
            Percentage = pct (count_in_group cc rs g) (sum_list (map (count_in_group cc rs) (group_by rs))),
            Rank = Suc i \<rparr>)"
  using assms by (simp add: select_ranked_def Let_def length_order_by_count_desc nth_enumerate_eq)


lemma group_select_ranked:
  "map ranked_group (select_ranked pct eng cc rs) =
     order_by_count_desc (window_ties eng) (count_in_group cc rs) (group_by rs)"
  by (rule nth_equalityI) (simp_all add: length_select_ranked length_order_by_count_desc select_ranked_nth Let_def ranked_group_def)

lemma select_ranked_fields:
  assumes "x \<in> set (select_ranked pct eng cc rs)"
  shows "Households_Count x = count_in_group cc rs (ranked_group x)"
    and "Percentage x = pct (Households_Count x) (sum_list (map (count_in_group cc rs) (group_by rs)))"
proof -
  from assms obtain i where i: "i < length (group_by rs)" "x = select_ranked pct eng cc rs ! i"
    by (auto simp: in_set_conv_nth length_select_ranked)
  show "Households_Count x = count_in_group cc rs (ranked_group x)"
    using i by (simp add: select_ranked_nth Let_def ranked_group_def)
  show "Percentage x = pct (Households_Count x) (sum_list (map (count_in_group cc rs) (group_by rs)))"
    using i by (simp add: select_ranked_nth Let_def)
qed


lemma mset_query: "mset (query pct eng cc wh tbl) = mset (select_ranked pct eng cc (filter (where_str wh) tbl))"
  by (simp add: query_def mset_order_by_count_desc)

lemma set_query: "set (query pct eng cc wh tbl) = set (select_ranked pct eng cc (filter (where_str wh) tbl))"
  by (simp add: query_def set_order_by_count_desc)















lemma aggregate_period: "aggregate COUNT_hh_id rs = length [r \<leftarrow> rs. hh_id r \<noteq> None]"
  by simp


lemma map_filter_hh_id_present:
  "List.map_filter hh_id [r \<leftarrow> rs. hh_id r \<noteq> None] = List.map_filter hh_id rs"
  by (induction rs) (auto simp: List.map_filter_simps split: option.splits)

lemma aggregate_skips_null: "aggregate cc [r \<leftarrow> rs. hh_id r \<noteq> None] = aggregate cc rs"
  by (cases cc) (simp_all add: map_filter_hh_id_present del: not_None_eq)

lemma count_in_group_skips_null:
  "count_in_group cc [r \<leftarrow> rs. hh_id r \<noteq> None] g = count_in_group cc rs g"
proof -
  have "[r \<leftarrow> [r \<leftarrow> rs. hh_id r \<noteq> None]. group_of r = g] = [r \<leftarrow> [r \<leftarrow> rs. group_of r = g]. hh_id r \<noteq> None]"
    by (simp add: conj_commute)
  then show ?thesis
    by (simp only: count_in_group_def aggregate_skips_null)
qed

lemma count_in_group_all_null:
  assumes "g \<notin> group_of ` set [r \<leftarrow> rs. hh_id r \<noteq> None]"
  shows "count_in_group cc rs g = 0"
proof -
  from assms have "[r \<leftarrow> [r \<leftarrow> rs. group_of r = g]. hh_id r \<noteq> None] = []"
    by (auto simp: filter_empty_conv)
  then have "aggregate cc [r \<leftarrow> [r \<leftarrow> rs. group_of r = g]. hh_id r \<noteq> None] = 0"
    by (cases cc) (simp_all add: List.map_filter_simps)
  then show ?thesis
    by (simp only: count_in_group_def aggregate_skips_null)
qed

lemma set_group_by: "set (group_by rs) = group_of ` set rs"
  by (simp add: group_by_def)

lemma distinct_group_by: "distinct (group_by rs)"
  by (simp add: group_by_def)

lemma groups_of_query:
  "mset (map ranked_group (query pct eng cc wh tbl)) = mset (group_by (filter (where_str wh) tbl))"
proof -
  let ?M = "filter (where_str wh) tbl"
  have "mset (map ranked_group (query pct eng cc wh tbl)) = image_mset ranked_group (mset (query pct eng cc wh tbl))"
    by simp
  also have "\<dots> = image_mset ranked_group (mset (select_ranked pct eng cc ?M))"
    by (simp only: mset_query)
  also have "\<dots> = mset (map ranked_group (select_ranked pct eng cc ?M))"
    by simp
  also have "\<dots> = mset (group_by ?M)"
    by (simp only: group_select_ranked mset_order_by_count_desc)
  finally show ?thesis .
qed

lemma query_count:
  assumes "x \<in> set (query pct eng cc wh tbl)"
  shows "Households_Count x = count_in_group cc (filter (where_str wh) tbl) (ranked_group x)"
  using assms by (simp add: set_query select_ranked_fields(1))

lemma sum_counts_query:
  "sum_list (map Households_Count (query pct eng cc wh tbl))
     = (\<Sum>g\<in>group_of ` set (filter (where_str wh) tbl). count_in_group cc (filter (where_str wh) tbl) g)"
proof -
  let ?M = "filter (where_str wh) tbl"
  let ?c = "count_in_group cc ?M"
  have "map Households_Count (query pct eng cc wh tbl) = map ?c (map ranked_group (query pct eng cc wh tbl))"
    by (simp add: query_count)
  then have "sum_list (map Households_Count (query pct eng cc wh tbl))
               = sum_mset (image_mset ?c (mset (map ranked_group (query pct eng cc wh tbl))))"
    by (metis mset_map sum_mset_sum_list)
  also have "\<dots> = sum_mset (image_mset ?c (mset (group_by ?M)))"
    by (simp only: groups_of_query)
  also have "\<dots> = sum_list (map ?c (group_by ?M))"
    by (metis mset_map sum_mset_sum_list)
  also have "\<dots> = sum ?c (set (group_by ?M))"
    by (rule sum_list_distinct_conv_sum_set) (rule distinct_group_by)
  finally show ?thesis
    by (simp only: set_group_by)
qed

lemma get_Table:
  "fst (get_caste_distribution_duckdb_optimized pct eng (Table tbl) st year month flag dist) = (rows, grand_total)
   \<Longrightarrow> rows = query pct eng (count_hh_id_clause flag) (where_clauses st year month flag dist) tbl
     \<and> grand_total = sum_list (map Households_Count rows)"
  by (auto simp: get_caste_distribution_duckdb_optimized_def Let_def)

lemma total_of_Table:
  assumes "fst (get_caste_distribution_duckdb_optimized pct eng (Table tbl) st year month flag dist) = (rows, grand_total)"
  shows "grand_total = (\<Sum>g\<in>group_of ` set (filter (where_str (where_clauses st year month flag dist)) tbl).
            count_in_group (count_hh_id_clause flag) (filter (where_str (where_clauses st year month flag dist)) tbl) g)"
  using get_Table [OF assms] by (simp only: sum_counts_query)

lemma filter_present_commute:
  "filter P [r \<leftarrow> tbl. hh_id r \<noteq> None] = [r \<leftarrow> filter P tbl. hh_id r \<noteq> None]"
  by (simp add: conj_commute)

text \<open>
  The percentage of a returned row is the engine's expression applied to the count of the
  row and to the grand total. Its value, a rounded quotient of two \<open>DOUBLE\<close>s, is not
  computed here.
\<close>

lemma percentage_from_count_and_total:
  assumes run: "fst (get_caste_distribution_duckdb_optimized pct eng (Table tbl) st year month flag dist) = (rows, grand_total)"
      and x: "x \<in> set rows"
  shows "Percentage x = pct (Households_Count x) grand_total"
proof -
  define wh where "wh = where_clauses st year month flag dist"
  define cc where "cc = count_hh_id_clause flag"
  define M where "M = filter (where_str wh) tbl"
  from get_Table [OF run] have rows: "rows = query pct eng cc wh tbl"
    and total: "grand_total = sum_list (map Households_Count rows)"
    by (simp_all add: wh_def cc_def)
  have "grand_total = sum (count_in_group cc M) (group_of ` set M)"
    unfolding total rows M_def by (rule sum_counts_query)
  also have "\<dots> = sum_list (map (count_in_group cc M) (group_by M))"
    using sum_list_distinct_conv_sum_set [OF distinct_group_by, of "count_in_group cc M" M]
    by (simp only: set_group_by)
  finally have "grand_total = sum_list (map (count_in_group cc M) (group_by M))" .
  moreover from x have "x \<in> set (select_ranked pct eng cc M)"
    by (simp only: rows set_query M_def)
  then have "Percentage x = pct (Households_Count x) (sum_list (map (count_in_group cc M) (group_by M)))"
    by (rule select_ranked_fields(2))
  ultimately show ?thesis by simp
qed

section \<open>The grand total\<close>

text \<open>
  C1. Whenever the function returns a frame and a total, the total is the sum of the
  \<open>Households Count\<close> column of that frame: it is computed from the returned rows, also
  when the whole panel is viewed and a household has rows in several periods.
\<close>

theorem grand_total_is_sum_of_rows:
  assumes "fst (get_caste_distribution_duckdb_optimized pct eng path st year month flag dist) = (rows, grand_total)"
  shows "grand_total = sum_list (map Households_Count rows)"
  using assms
  by (cases path) (auto simp: get_caste_distribution_duckdb_optimized_def Let_def)

theorem grand_total_is_sum_of_rows_witness:
  "fst (get_caste_distribution_duckdb_optimized operands first_come (Table two_periods)
          ''A'' 2020 1 True ''Entire State'')
     = ([\<lparr> Caste = Some ''C1'', Caste_Category = Some ''K1'', Households_Count = 2,
            Percentage = (2, 3), Rank = 1 \<rparr>,
         \<lparr> Caste = Some ''C2'', Caste_Category = Some ''K2'', Households_Count = 1,
            Percentage = (1, 3), Rank = 2 \<rparr>], 3)
   \<and> (3::nat) = sum_list (map Households_Count
         [\<lparr> Caste = Some ''C1'', Caste_Category = Some ''K1'', Households_Count = 2,
            Percentage = (2::nat, 3::nat), Rank = 1 \<rparr>,
          \<lparr> Caste = Some ''C2'', Caste_Category = Some ''K2'', Households_Count = 1,
            Percentage = (1, 3), Rank = 2 \<rparr>])"
proof -
  have run: "fst (get_caste_distribution_duckdb_optimized operands first_come (Table two_periods)
          ''A'' 2020 1 True ''Entire State'')
     = ([\<lparr> Caste = Some ''C1'', Caste_Category = Some ''K1'', Households_Count = 2,
            Percentage = (2, 3), Rank = 1 \<rparr>,
         \<lparr> Caste = Some ''C2'', Caste_Category = Some ''K2'', Households_Count = 1,
            Percentage = (1, 3), Rank = 2 \<rparr>], 3)"
    by code_simp
  from grand_total_is_sum_of_rows [OF run] run show ?thesis
    by simp
qed

section \<open>The filter\<close>




section \<open>The count of a group\<close>




section \<open>Ranks and order\<close>




section \<open>No data and no dataset\<close>




section \<open>The district list\<close>


section \<open>Values outside the domains\<close>




section \<open>The whole panel\<close>

text \<open>
  C8. When the whole panel is viewed, the year and the month given do not enter the
  query: two calls on the same source and engine that differ in year and month only
  return the same frame, the same total and show the same messages.
\<close>

theorem panel_ignores_year_and_month:
  "get_caste_distribution_duckdb_optimized pct eng path st year month True dist
     = get_caste_distribution_duckdb_optimized pct eng path st year' month' True dist"
  by (cases path) (simp_all add: get_caste_distribution_duckdb_optimized_def where_clauses_def)

theorem panel_ignores_year_and_month_witness:
  "get_caste_distribution_duckdb_optimized operands first_come (Table two_periods)
       ''A'' 2020 1 True ''Entire State''
     = get_caste_distribution_duckdb_optimized operands first_come (Table two_periods)
       ''A'' 1999 7 True ''Entire State''"
  using panel_ignores_year_and_month [of operands first_come "Table two_periods" "''A''" 2020 1 "''Entire State''" 1999 7]
  by simp

section \<open>Rows without a household identifier\<close>

text \<open>
  C10. A filtered row whose household identifier is \<open>NULL\<close> adds nothing to the count
  of its group and nothing to the grand total, in period mode (\<open>COUNT(hh_id)\<close>) and in
  panel mode (\<open>COUNT(DISTINCT hh_id)\<close>): running the function on the table and on the
  table without those rows gives the same grand total and the same count for every group
  in both frames, and a group that is in the first frame only has the count 0.
\<close>

theorem null_identifiers_add_nothing:
  assumes all: "fst (get_caste_distribution_duckdb_optimized pct eng (Table tbl)
                       st year month flag dist) = (rows, grand_total)"
      and present: "fst (get_caste_distribution_duckdb_optimized pct eng' (Table [r \<leftarrow> tbl. hh_id r \<noteq> None])
                       st year month flag dist) = (rows', grand_total')"
  shows "grand_total' = grand_total
       \<and> (\<forall>x\<in>set rows. \<forall>x'\<in>set rows'. ranked_group x = ranked_group x'
              \<longrightarrow> Households_Count x = Households_Count x')
       \<and> (\<forall>x\<in>set rows. ranked_group x \<notin> ranked_group ` set rows' \<longrightarrow> Households_Count x = 0)"
proof -
  define wh where "wh = where_clauses st year month flag dist"
  define cc where "cc = count_hh_id_clause flag"
  define M where "M = filter (where_str wh) tbl"
  define M' where "M' = [r \<leftarrow> M. hh_id r \<noteq> None]"
  have M': "filter (where_str wh) [r \<leftarrow> tbl. hh_id r \<noteq> None] = M'"
    unfolding M'_def M_def by (rule filter_present_commute)
  from get_Table [OF all] have rows: "rows = query pct eng cc wh tbl"
    by (simp add: wh_def cc_def)
  from get_Table [OF present] have rows': "rows' = query pct eng' cc wh [r \<leftarrow> tbl. hh_id r \<noteq> None]"
    by (simp add: wh_def cc_def)
  have cnt: "Households_Count x = count_in_group cc M (ranked_group x)" if "x \<in> set rows" for x
    using that unfolding rows M_def by (rule query_count)
  have cnt': "Households_Count x' = count_in_group cc M (ranked_group x')" if "x' \<in> set rows'" for x'
  proof -
    from that have "Households_Count x' = count_in_group cc M' (ranked_group x')"
      unfolding rows' using query_count [of x' pct eng' cc wh "[r \<leftarrow> tbl. hh_id r \<noteq> None]"]
      by (simp only: M')
    then show ?thesis
      by (simp only: M'_def count_in_group_skips_null)
  qed
  have groups': "ranked_group ` set rows' = group_of ` set M'"
  proof -
    have "mset (map ranked_group rows') = mset (group_by M')"
      unfolding rows' using groups_of_query [of pct eng' cc wh "[r \<leftarrow> tbl. hh_id r \<noteq> None]"]
      by (simp only: M')
    from mset_eq_setD [OF this] show ?thesis
      by (simp only: set_group_by set_map)
  qed
  have zero: "count_in_group cc M g = 0" if "g \<notin> group_of ` set M'" for g
    using that unfolding M'_def by (rule count_in_group_all_null)
  have t: "grand_total = sum (count_in_group cc M) (group_of ` set M)"
    using total_of_Table [OF all] by (simp only: wh_def cc_def M_def)
  have "grand_total' = sum (count_in_group cc M') (group_of ` set M')"
    using total_of_Table [OF present] by (simp only: wh_def [symmetric] cc_def [symmetric] M')
  also have "\<dots> = sum (count_in_group cc M) (group_of ` set M')"
    by (rule sum.cong) (simp_all only: M'_def count_in_group_skips_null)
  also have "\<dots> = sum (count_in_group cc M) (group_of ` set M)"
  proof (rule sum.mono_neutral_left)
    show "finite (group_of ` set M)" by simp
    show "group_of ` set M' \<subseteq> group_of ` set M" by (auto simp: M'_def)
    show "\<forall>g\<in>group_of ` set M - group_of ` set M'. count_in_group cc M g = 0"
      using zero by simp
  qed
  finally have a: "grand_total' = grand_total"
    by (simp only: t)
  have b: "\<forall>x\<in>set rows. \<forall>x'\<in>set rows'. ranked_group x = ranked_group x'
              \<longrightarrow> Households_Count x = Households_Count x'"
  proof (intro ballI impI)
    fix x x'
    assume "x \<in> set rows" "x' \<in> set rows'" "ranked_group x = ranked_group x'"
    then show "Households_Count x = Households_Count x'"
      using cnt [of x] cnt' [of x'] by simp
  qed
  have c: "\<forall>x\<in>set rows. ranked_group x \<notin> ranked_group ` set rows' \<longrightarrow> Households_Count x = 0"
  proof (intro ballI impI)
    fix x
    assume "x \<in> set rows" "ranked_group x \<notin> ranked_group ` set rows'"
    then show "Households_Count x = 0"
      using cnt [of x] zero [of "ranked_group x"] by (simp add: groups')
  qed
  from a b c show ?thesis by (intro conjI)
qed

theorem null_identifiers_add_nothing_witness:
  "fst (get_caste_distribution_duckdb_optimized operands first_come (Table unidentified)
          ''A'' 2020 1 False ''Entire State'')
     = ([\<lparr> Caste = Some ''C1'', Caste_Category = Some ''K1'', Households_Count = 1,
            Percentage = (1, 1), Rank = 1 \<rparr>,
         \<lparr> Caste = Some ''C2'', Caste_Category = Some ''K2'', Households_Count = 0,
            Percentage = (0, 1), Rank = 2 \<rparr>], 1)
   \<and> fst (get_caste_distribution_duckdb_optimized operands first_come
            (Table [r \<leftarrow> unidentified. hh_id r \<noteq> None]) ''A'' 2020 1 False ''Entire State'')
     = ([\<lparr> Caste = Some ''C1'', Caste_Category = Some ''K1'', Households_Count = 1,
            Percentage = (1, 1), Rank = 1 \<rparr>], 1)
   \<and> length (filter (where_str (where_clauses ''A'' 2020 1 False ''Entire State'')) unidentified) = 3"
proof -
  have all: "fst (get_caste_distribution_duckdb_optimized operands first_come (Table unidentified)
          ''A'' 2020 1 False ''Entire State'')
     = ([\<lparr> Caste = Some ''C1'', Caste_Category = Some ''K1'', Households_Count = 1,
            Percentage = (1, 1), Rank = 1 \<rparr>,
         \<lparr> Caste = Some ''C2'', Caste_Category = Some ''K2'', Households_Count = 0,
            Percentage = (0, 1), Rank = 2 \<rparr>], 1)"
    by code_simp
  have present: "fst (get_caste_distribution_duckdb_optimized operands first_come
            (Table [r \<leftarrow> unidentified. hh_id r \<noteq> None]) ''A'' 2020 1 False ''Entire State'')
     = ([\<lparr> Caste = Some ''C1'', Caste_Category = Some ''K1'', Households_Count = 1,
            Percentage = (1, 1), Rank = 1 \<rparr>], 1)"
    by code_simp
  have three: "length (filter (where_str (where_clauses ''A'' 2020 1 False ''Entire State'')) unidentified) = 3"
    by code_simp
  from null_identifiers_add_nothing [OF all present] all present three show ?thesis
    by (intro conjI)
qed

end
